theory Spec2Isabelle
  imports Main
begin

section \<open>Data model\<close>

text \<open>
  Identifiers, timestamps as the backend sends them, and texts are JavaScript strings.
\<close>

type_synonym ident = string

text \<open>
  Modelled from the spec: the row types \<open>Database['public']['Tables'][...]['Row']\<close> of
  \<open>lib/database.types\<close>, which is not among the sources. Section 3 of the specification
  gives the fields: a vote references one poll, one option and one user; an option belongs
  to one poll and has a display text; a poll has a title, a description, an end timestamp,
  an active flag and a creation timestamp. The source reads \<open>id\<close>, \<open>poll_id\<close>,
  \<open>option_id\<close>, \<open>user_id\<close>, \<open>text\<close>, \<open>title\<close>, \<open>description\<close>, \<open>ends_at\<close> and
  \<open>is_active\<close>; the fields carry the table's name as a prefix here, since record fields
  are global constants.
\<close>

record vote =
  vote_id :: ident
  vote_poll_id :: ident
  vote_option_id :: ident
  vote_user_id :: ident

record option_row =
  option_id :: ident
  option_poll_id :: ident
  option_text :: string

record poll_row =
  poll_id :: ident
  poll_title :: string
  poll_description :: string
  poll_ends_at :: string
  poll_is_active :: bool
  poll_created_at :: string

text \<open>
  \<open>type Poll = Row & { options: (Row & { votes: Row[] })[] }\<close> of PollList.tsx: the
  intersection types are record extensions.
\<close>

record option_with_votes = option_row +
  votes :: "vote list"

record poll = poll_row +
  options :: "option_with_votes list"

text \<open>The session user (\<open>user.id\<close>, \<open>user.email\<close>) and the store read by \<open>useAuthStore\<close>.\<close>

record auth_user =
  user_id :: ident
  user_email :: string

record auth_store =
  user :: "auth_user option"
  isAdmin :: bool

text \<open>The four \<open>useState\<close> cells of \<open>PollList\<close>, with their initial values.\<close>

record poll_list_state =
  polls :: "poll list"
  loading :: bool
  error :: "string option"
  votingInProgress :: "ident option"

definition initial_state :: poll_list_state where
  "initial_state = \<lparr>polls = [], loading = True, error = None, votingInProgress = None\<rparr>"

text \<open>
  \<open>if (x)\<close> on a value of type \<open>string | null\<close>: \<open>null\<close> and the empty string are falsy.
\<close>

definition truthy :: "string option \<Rightarrow> bool" where
  "truthy v = (case v of None \<Rightarrow> False | Some s \<Rightarrow> s \<noteq> [])"

section \<open>Backend calls and observable effects\<close>

text \<open>
  An awaited call of the backend client either rejects (the enclosing \<open>try\<close> catches it)
  or resolves with an object \<open>{ data, error }\<close>, both nullable. The source destructures
  both and looks at \<open>error\<close> first.
\<close>

record 'a response =
  resp_data :: "'a option"
  resp_error :: "string option"

datatype 'a outcome = Rejected | Resolved "'a response"

text \<open>A call has failed when it rejected or resolved with an error (\<open>if (e) throw e\<close>).\<close>

fun failed :: "'a outcome \<Rightarrow> bool" where
  "failed Rejected = True"
| "failed (Resolved r) = (resp_error r \<noteq> None)"

text \<open>
  What a handler does besides updating the component state, in program order: the
  requests it sends to the backend, its toasts and its console messages.
\<close>

datatype effect =
    Select_polls
  | Select_vote ident ident
  | Insert_vote ident ident ident
  | Select_profile ident
  | Toast_error string
  | Toast_success string
  | Console_error string

fun is_insert :: "effect \<Rightarrow> bool" where
  "is_insert (Insert_vote p opt u) = True"
| "is_insert e = False"

fun is_request :: "effect \<Rightarrow> bool" where
  "is_request Select_polls = True"
| "is_request (Select_vote p u) = True"
| "is_request (Insert_vote p opt u) = True"
| "is_request (Select_profile u) = True"
| "is_request e = False"

definition inserts :: "effect list \<Rightarrow> effect list" where
  "inserts es = filter is_insert es"

definition requests :: "effect list \<Rightarrow> effect list" where
  "requests es = filter is_request es"

section \<open>fetchPolls\<close>

text \<open>
  PollList.tsx, lines 23 to 49. The function runs up to its one \<open>await\<close>
  (\<open>fetchPolls_begin\<close>) and continues when the composite read settles
  (\<open>fetchPolls_settle\<close>); \<open>fetchPolls\<close> is the whole call. The \<open>catch\<close> is inside
  the function, so it never throws.
\<close>

definition fetchPolls_begin :: "poll_list_state \<Rightarrow> poll_list_state \<times> effect list" where
  "fetchPolls_begin s = (s\<lparr>loading := True, error := None\<rparr>, [Select_polls])"

definition fetchPolls_catch :: "poll_list_state \<Rightarrow> poll_list_state \<times> effect list" where
  "fetchPolls_catch s =
     (s\<lparr>error := Some ''Failed to load polls. Please try again.'', loading := False\<rparr>,
      [Console_error ''Error fetching polls:''])"

definition fetchPolls_settle ::
  "poll_list_state \<Rightarrow> poll list outcome \<Rightarrow> poll_list_state \<times> effect list" where
  "fetchPolls_settle s out =
     (case out of
        Rejected \<Rightarrow> fetchPolls_catch s
      | Resolved r \<Rightarrow>
          if resp_error r \<noteq> None then fetchPolls_catch s
          else (s\<lparr>polls := (case resp_data r of None \<Rightarrow> [] | Some ps \<Rightarrow> ps),
                   loading := False\<rparr>, []))"

definition fetchPolls ::
  "poll_list_state \<Rightarrow> poll list outcome \<Rightarrow> poll_list_state \<times> effect list" where
  "fetchPolls s out =
     (case fetchPolls_begin s of (s1, e1) \<Rightarrow>
        (case fetchPolls_settle s1 out of (s2, e2) \<Rightarrow> (s2, e1 @ e2)))"

section \<open>handleVote\<close>

text \<open>
  PollList.tsx, lines 85 to 132. \<open>handleVote\<close> is a closure of one render: the
  \<open>user\<close> and the \<open>votingInProgress\<close> that its guards read are the constants of that
  render (lines 20 and 21), here the store \<open>a\<close> and the marker \<open>captured\<close>. The setters
  it calls write the state of the component as it is when they run, here \<open>s\<close>; a call
  made from the latest render has \<open>captured = votingInProgress s\<close>. The two guards stand
  before the \<open>try\<close>, so they return without running the \<open>finally\<close>. \<open>existingVote\<close> is an object or \<open>null\<close>, and the
  errors are objects or \<open>null\<close>: truthy exactly when present. The three outcomes are
  those of the existence check, of the insert and of the re-fetch; one that the run does
  not reach is not looked at.
\<close>

definition handleVote_finally :: "poll_list_state \<Rightarrow> poll_list_state" where
  "handleVote_finally s = s\<lparr>votingInProgress := None\<rparr>"

definition handleVote_catch ::
  "poll_list_state \<Rightarrow> effect list \<Rightarrow> poll_list_state \<times> effect list" where
  "handleVote_catch s es =
     (handleVote_finally s,
      es @ [Console_error ''Error voting:'',
            Toast_error ''Failed to record vote. Please try again.''])"

definition handleVote ::
  "auth_store \<Rightarrow> ident option \<Rightarrow> poll_list_state \<Rightarrow> ident \<Rightarrow> ident \<Rightarrow>
   ident outcome \<Rightarrow> unit outcome \<Rightarrow> poll list outcome \<Rightarrow> poll_list_state \<times> effect list" where
  "handleVote a captured s pollId optionId checkOut insertOut fetchOut =
     (case user a of
        None \<Rightarrow> (s, [Toast_error ''Please sign in to vote''])
      | Some u \<Rightarrow>
          if truthy captured then (s, [])
          else
            let s1 = s\<lparr>votingInProgress := Some pollId\<rparr>;
                e1 = [Select_vote pollId (user_id u)]
            in (case checkOut of
                  Rejected \<Rightarrow> handleVote_catch s1 e1
                | Resolved r \<Rightarrow>
                    if resp_error r \<noteq> None then handleVote_catch s1 e1
                    else if resp_data r \<noteq> None then
                      (handleVote_finally s1,
                       e1 @ [Toast_error ''You have already voted on this poll''])
                    else
                      let e2 = e1 @ [Insert_vote pollId optionId (user_id u)]
                      in (case insertOut of
                            Rejected \<Rightarrow> handleVote_catch s1 e2
                          | Resolved r' \<Rightarrow>
                              if resp_error r' \<noteq> None then handleVote_catch s1 e2
                              else
                                (case fetchPolls s1 fetchOut of (s2, e3) \<Rightarrow>
                                   (handleVote_finally s2,
                                    e2 @ [Toast_success ''Vote recorded successfully!''] @ e3)))))"

section \<open>Results projection\<close>

text \<open>
  PollList.tsx, lines 161 to 170. \<open>new Date(poll.ends_at)\<close> parses a string into
  milliseconds since the epoch, or into an invalid date, which compares false with
  everything; the parser is the runtime's and is a parameter here (\<open>None\<close> for an invalid
  date). \<open>now\<close> is the value of \<open>new Date()\<close>. \<open>user && ...\<close> is \<open>null\<close> without a
  user, which every use below reads as false.
\<close>

definition chart_data :: "poll \<Rightarrow> (string \<times> nat) list" where
  "chart_data p = map (\<lambda>opt. (option_text opt, length (votes opt))) (options p)"

definition hasVoted :: "auth_store \<Rightarrow> poll \<Rightarrow> bool" where
  "hasVoted a p =
     (case user a of
        None \<Rightarrow> False
      | Some u \<Rightarrow>
          list_ex (\<lambda>opt. list_ex (\<lambda>v. vote_user_id v = user_id u) (votes opt)) (options p))"

definition hasUserVotedForThis :: "auth_store \<Rightarrow> option_with_votes \<Rightarrow> bool" where
  "hasUserVotedForThis a opt =
     (case user a of
        None \<Rightarrow> False
      | Some u \<Rightarrow> list_ex (\<lambda>v. vote_user_id v = user_id u) (votes opt))"

definition isPollActive :: "(string \<Rightarrow> int option) \<Rightarrow> int \<Rightarrow> poll \<Rightarrow> bool" where
  "isPollActive parseDate now p =
     ((case parseDate (poll_ends_at p) of None \<Rightarrow> False | Some t \<Rightarrow> now < t)
      \<and> poll_is_active p)"

section \<open>The rendered view\<close>

text \<open>
  PollList.tsx, lines 134 to 240, as data: which of the four screens is returned and, for
  the poll grid, what each card shows. A handler passed to \<open>onClick\<close> is named by the
  call it makes. The chart and the tallies are present only where the JSX guards
  \<open>(isAdmin || hasVoted) && data.length > 0\<close> and \<open>(isAdmin || hasVoted)\<close> let them
  through. \<open>if (error)\<close> is the truthiness of a \<open>string | null\<close>: the branch is taken
  for a message that is present and not empty.
\<close>

datatype ui_action = Call_fetchPolls | Call_handleVote ident ident

datatype button_class = Class_voted | Class_hover | Class_not_allowed

record option_button =
  button_onClick :: ui_action
  button_disabled :: bool
  button_class :: button_class
  button_label :: string
  button_tally :: "nat option"

record poll_card =
  card_title :: string
  card_description :: string
  card_chart :: "(string \<times> nat) list option"
  card_buttons :: "option_button list"
  card_active :: bool

datatype view =
    Loading_spinner string
  | Error_message string string ui_action
  | No_polls
  | Poll_grid "poll_card list"

definition vote_disabled ::
  "(string \<Rightarrow> int option) \<Rightarrow> int \<Rightarrow> auth_store \<Rightarrow> poll_list_state \<Rightarrow> poll \<Rightarrow> bool" where
  "vote_disabled parseDate now a s p =
     (user a = None \<or> hasVoted a p \<or> \<not> isPollActive parseDate now p
      \<or> votingInProgress s = Some (poll_id p))"

definition render_option ::
  "(string \<Rightarrow> int option) \<Rightarrow> int \<Rightarrow> auth_store \<Rightarrow> poll_list_state \<Rightarrow> poll \<Rightarrow>
   option_with_votes \<Rightarrow> option_button" where
  "render_option parseDate now a s p opt =
     \<lparr>button_onClick = Call_handleVote (poll_id p) (option_id opt),
      button_disabled = vote_disabled parseDate now a s p,
      button_class =
        (if hasUserVotedForThis a opt then Class_voted
         else if isPollActive parseDate now p \<and> user a \<noteq> None then Class_hover
         else Class_not_allowed),
      button_label = option_text opt,
      button_tally =
        (if isAdmin a \<or> hasVoted a p then Some (length (votes opt)) else None)\<rparr>"

definition render_poll ::
  "(string \<Rightarrow> int option) \<Rightarrow> int \<Rightarrow> auth_store \<Rightarrow> poll_list_state \<Rightarrow> poll \<Rightarrow> poll_card" where
  "render_poll parseDate now a s p =
     \<lparr>card_title = poll_title p,
      card_description = poll_description p,
      card_chart =
        (if (isAdmin a \<or> hasVoted a p) \<and> 0 < length (chart_data p)
         then Some (chart_data p) else None),
      card_buttons = map (render_option parseDate now a s p) (options p),
      card_active = isPollActive parseDate now p\<rparr>"

definition render_polls ::
  "(string \<Rightarrow> int option) \<Rightarrow> int \<Rightarrow> auth_store \<Rightarrow> poll_list_state \<Rightarrow> view" where
  "render_polls parseDate now a s =
     (if length (polls s) = 0 then No_polls
      else Poll_grid (map (render_poll parseDate now a s) (polls s)))"

definition render ::
  "(string \<Rightarrow> int option) \<Rightarrow> int \<Rightarrow> auth_store \<Rightarrow> poll_list_state \<Rightarrow> view" where
  "render parseDate now a s =
     (if loading s then Loading_spinner ''Loading polls...''
      else
        (case error s of
           None \<Rightarrow> render_polls parseDate now a s
         | Some msg \<Rightarrow>
             if msg \<noteq> [] then Error_message msg ''Try Again'' Call_fetchPolls
             else render_polls parseDate now a s))"

fun shows_polls :: "view \<Rightarrow> bool" where
  "shows_polls (Poll_grid cards) = True"
| "shows_polls v = False"

text \<open>
  A click on the button of option \<open>opt\<close> of poll \<open>p\<close>. The button and its handler are
  those of one render: of the component state \<open>r\<close> and the store \<open>a\<close>, at the time
  \<open>renderedAt\<close>. The click comes later, when the component state is \<open>s\<close>. A disabled
  button does not run its \<open>onClick\<close>; an enabled one calls
  \<open>handleVote(poll.id, option.id)\<close> of that render. Nothing is read when the click
  happens: neither the clock nor the state of that moment.
\<close>

definition clickOption ::
  "(string \<Rightarrow> int option) \<Rightarrow> int \<Rightarrow> auth_store \<Rightarrow> poll_list_state \<Rightarrow> poll_list_state \<Rightarrow>
   poll \<Rightarrow> option_with_votes \<Rightarrow> ident outcome \<Rightarrow> unit outcome \<Rightarrow> poll list outcome \<Rightarrow>
   poll_list_state \<times> effect list" where
  "clickOption parseDate renderedAt a r s p opt checkOut insertOut fetchOut =
     (if button_disabled (render_option parseDate renderedAt a r p opt) then (s, [])
      else handleVote a (votingInProgress r) s (poll_id p) (option_id opt)
             checkOut insertOut fetchOut)"

text \<open>
  What \<open>App\<close> puts on the screen (lines 90 to 153 of its file; the navigation bar is
  left out): the spinner while the session is being recovered, the sign-in form when the store
  holds no user, and otherwise the poll list, below the poll-creation form for an admin.
\<close>

datatype app_view = App_initializing | App_sign_in | App_signed_in bool view

definition App_render :: "bool \<Rightarrow> auth_store \<Rightarrow> view \<Rightarrow> app_view" where
  "App_render appLoading a pollList =
     (if appLoading then App_initializing
      else if user a = None then App_sign_in
      else App_signed_in (isAdmin a) pollList)"

section \<open>The component between its awaits\<close>

text \<open>
  \<open>handleVote\<close> suspends at three awaits: the existence check, the insert, and the
  re-fetch inside \<open>fetchPolls\<close>. Between two awaits a handler runs to its end (one
  JavaScript thread), and other handlers run while it is suspended. \<open>handleVote_begin\<close>
  is the call up to the first await; \<open>handleVote_resume\<close> continues a suspended call
  with the reply it waits for, on the component state of that moment (every state update
  of the source sets a value, none reads the old one). The guards of
  \<open>handleVote_begin\<close> read the store and the marker of the render that made the call;
  the suspended call remembers the \<open>pollId\<close>, \<open>optionId\<close> and \<open>user\<close> of its closure.
  A reply of another kind than the one awaited leaves everything as it is.
\<close>

datatype pending = Await_check ident ident auth_user | Await_insert | Await_refetch

datatype reply =
    Check_reply "ident outcome"
  | Insert_reply "unit outcome"
  | Polls_reply "poll list outcome"

definition handleVote_begin ::
  "auth_store \<Rightarrow> ident option \<Rightarrow> poll_list_state \<Rightarrow> ident \<Rightarrow> ident \<Rightarrow>
   poll_list_state \<times> effect list \<times> pending option" where
  "handleVote_begin a captured s pollId optionId =
     (case user a of
        None \<Rightarrow> (s, [Toast_error ''Please sign in to vote''], None)
      | Some u \<Rightarrow>
          if truthy captured then (s, [], None)
          else (s\<lparr>votingInProgress := Some pollId\<rparr>,
                [Select_vote pollId (user_id u)],
                Some (Await_check pollId optionId u)))"

definition ended :: "poll_list_state \<times> effect list \<Rightarrow> poll_list_state \<times> effect list \<times> pending option" where
  "ended r = (fst r, snd r, None)"

fun handleVote_resume ::
  "poll_list_state \<Rightarrow> pending \<Rightarrow> reply \<Rightarrow> poll_list_state \<times> effect list \<times> pending option" where
  "handleVote_resume s (Await_check pollId optionId u) (Check_reply out) =
     (case out of
        Rejected \<Rightarrow> ended (handleVote_catch s [])
      | Resolved r \<Rightarrow>
          if resp_error r \<noteq> None then ended (handleVote_catch s [])
          else if resp_data r \<noteq> None then
            (handleVote_finally s, [Toast_error ''You have already voted on this poll''], None)
          else (s, [Insert_vote pollId optionId (user_id u)], Some Await_insert))"
| "handleVote_resume s Await_insert (Insert_reply out) =
     (case out of
        Rejected \<Rightarrow> ended (handleVote_catch s [])
      | Resolved r \<Rightarrow>
          if resp_error r \<noteq> None then ended (handleVote_catch s [])
          else (case fetchPolls_begin s of (s1, e1) \<Rightarrow>
                  (s1, [Toast_success ''Vote recorded successfully!''] @ e1, Some Await_refetch)))"
| "handleVote_resume s Await_refetch (Polls_reply out) =
     (case fetchPolls_settle s out of (s1, e1) \<Rightarrow> (handleVote_finally s1, e1, None))"
| "handleVote_resume s task r = (s, [], Some task)"

text \<open>
  One mounted \<open>PollList\<close>: its state, its suspended \<open>handleVote\<close> calls, and the number
  of suspended \<open>fetchPolls\<close> calls made outside \<open>handleVote\<close> (on mount, on a change
  notification of the \<open>polls\<close> or \<open>votes\<close> table, on "Try Again"). An event is a call
  of a handler or the settling of an awaited request. A call of \<open>handleVote\<close> carries
  the store and the marker of the render whose closure is called, which need not be the
  latest state: two calls can come from the same render.
\<close>

record client =
  component :: poll_list_state
  submissions :: "pending list"
  fetches :: nat

definition initial_client :: client where
  "initial_client = \<lparr>component = initial_state, submissions = [], fetches = 0\<rparr>"

datatype event =
    Invoke_handleVote auth_store "ident option" ident ident
  | Submission_settles nat reply
  | Invoke_fetchPolls
  | Fetch_settles "poll list outcome"

fun step :: "client \<Rightarrow> event \<Rightarrow> client" where
  "step c (Invoke_handleVote a captured pollId optionId) =
     (case handleVote_begin a captured (component c) pollId optionId of
        (s, es, t) \<Rightarrow>
          c\<lparr>component := s,
            submissions := submissions c @ (case t of None \<Rightarrow> [] | Some task \<Rightarrow> [task])\<rparr>)"
| "step c (Submission_settles i r) =
     (if i < length (submissions c) then
        (case handleVote_resume (component c) (submissions c ! i) r of
           (s, es, t) \<Rightarrow>
             c\<lparr>component := s,
               submissions :=
                 (case t of
                    None \<Rightarrow> take i (submissions c) @ drop (Suc i) (submissions c)
                  | Some task \<Rightarrow> (submissions c)[i := task])\<rparr>)
      else c)"
| "step c Invoke_fetchPolls =
     c\<lparr>component := fst (fetchPolls_begin (component c)), fetches := Suc (fetches c)\<rparr>"
| "step c (Fetch_settles out) =
     (if fetches c = 0 then c
      else c\<lparr>component := fst (fetchPolls_settle (component c) out),
              fetches := fetches c - 1\<rparr>)"

definition run :: "client \<Rightarrow> event list \<Rightarrow> client" where
  "run c evs = foldl step c evs"



section \<open>The session store and the auth-state handler\<close>

text \<open>
  Modelled from the spec: the mutators of \<open>store/authStore\<close>, which is not among the
  sources. Section 4.1: the store "exposes mutators \<open>setUser\<close>, \<open>setIsAdmin\<close>, and
  \<open>reset\<close> (clears both to signed-out state)".
\<close>

definition setUser :: "auth_user option \<Rightarrow> auth_store \<Rightarrow> auth_store" where
  "setUser u a = a\<lparr>user := u\<rparr>"

definition setIsAdmin :: "bool \<Rightarrow> auth_store \<Rightarrow> auth_store" where
  "setIsAdmin b a = a\<lparr>isAdmin := b\<rparr>"

definition reset :: "auth_store \<Rightarrow> auth_store" where
  "reset a = a\<lparr>user := None, isAdmin := False\<rparr>"

definition signed_out :: auth_store where
  "signed_out = \<lparr>user = None, isAdmin = False\<rparr>"

text \<open>
  The callback that \<open>App\<close> gives to \<open>supabase.auth.onAuthStateChange\<close> (lines 45 to
  70 of its file).
  \<open>session\<close> may be \<open>null\<close> and \<open>session?.user\<close> absent; the profile row may be
  \<open>null\<close> and its \<open>is_admin\<close> too (\<open>profile?.is_admin ?? false\<close>).
  \<open>session_user_of\<close> is \<open>session?.user\<close>, and \<open>profile_settles\<close> is the callback
  from its one await on.
\<close>

record auth_session =
  session_user :: "auth_user option"

record profile =
  is_admin :: "bool option"

definition session_user_of :: "auth_session option \<Rightarrow> auth_user option" where
  "session_user_of session = (case session of None \<Rightarrow> None | Some ss \<Rightarrow> session_user ss)"

definition profile_catch :: "auth_store \<Rightarrow> auth_store \<times> effect list" where
  "profile_catch a =
     (reset a, [Console_error ''Profile fetch error:'', Toast_error ''Failed to load user profile''])"

definition profile_settles :: "auth_store \<Rightarrow> profile outcome \<Rightarrow> auth_store \<times> effect list" where
  "profile_settles a out =
     (case out of
        Rejected \<Rightarrow> profile_catch a
      | Resolved r \<Rightarrow>
          if resp_error r \<noteq> None then profile_catch a
          else (setIsAdmin
                  (case resp_data r of
                     None \<Rightarrow> False
                   | Some pr \<Rightarrow> (case is_admin pr of None \<Rightarrow> False | Some b \<Rightarrow> b)) a, []))"

definition onAuthStateChange ::
  "string \<Rightarrow> auth_session option \<Rightarrow> profile outcome \<Rightarrow> auth_store \<Rightarrow> auth_store \<times> effect list" where
  "onAuthStateChange ev session profileOut a =
     (if ev = ''SIGNED_OUT'' then (reset a, [])
      else
        (case session_user_of session of
           Some u \<Rightarrow>
             (case profile_settles (setUser (Some u) a) profileOut of
                (a', es) \<Rightarrow> (a', [Select_profile (user_id u)] @ es))
         | None \<Rightarrow> (reset a, [])))"

section \<open>The backend, for the round trip\<close>

text \<open>
  Modelled from the spec: the three tables behind \<open>lib/supabase\<close>, whose schema is not
  among the sources. Section 6: a "row read with nested-relation expansion: polls joined
  to options joined to votes"; a "single-row-or-absent lookup by (poll, user) on votes";
  a "row insert on votes with fields (poll reference, option reference, user reference);
  expected to fail if a uniqueness constraint on (poll, user) is violated, or succeed if
  none exists". \<open>polls_table\<close> lists the rows in the order of the read (creation time,
  descending). A lookup that finds several rows is an error. The new row's identifier is
  the backend's choice (\<open>vid\<close>).
\<close>

record backend =
  polls_table :: "poll_row list"
  options_table :: "option_row list"
  votes_table :: "vote list"

definition nest_option :: "backend \<Rightarrow> option_row \<Rightarrow> option_with_votes" where
  "nest_option db r =
     \<lparr>option_id = option_id r, option_poll_id = option_poll_id r, option_text = option_text r,
      votes = filter (\<lambda>v. vote_option_id v = option_id r) (votes_table db)\<rparr>"

definition nest_poll :: "backend \<Rightarrow> poll_row \<Rightarrow> poll" where
  "nest_poll db r =
     \<lparr>poll_id = poll_id r, poll_title = poll_title r, poll_description = poll_description r,
      poll_ends_at = poll_ends_at r, poll_is_active = poll_is_active r,
      poll_created_at = poll_created_at r,
      options = map (nest_option db)
                  (filter (\<lambda>opt. option_poll_id opt = poll_id r) (options_table db))\<rparr>"

definition poll_collection :: "backend \<Rightarrow> poll list" where
  "poll_collection db = map (nest_poll db) (polls_table db)"

definition backend_select_polls :: "backend \<Rightarrow> poll list outcome" where
  "backend_select_polls db =
     Resolved \<lparr>resp_data = Some (poll_collection db), resp_error = None\<rparr>"

definition votes_of :: "backend \<Rightarrow> ident \<Rightarrow> ident \<Rightarrow> vote list" where
  "votes_of db pollId userId =
     filter (\<lambda>v. vote_poll_id v = pollId \<and> vote_user_id v = userId) (votes_table db)"

definition backend_select_vote :: "backend \<Rightarrow> ident \<Rightarrow> ident \<Rightarrow> ident outcome" where
  "backend_select_vote db pollId userId =
     (case votes_of db pollId userId of
        [] \<Rightarrow> Resolved \<lparr>resp_data = None, resp_error = None\<rparr>
      | [v] \<Rightarrow> Resolved \<lparr>resp_data = Some (vote_id v), resp_error = None\<rparr>
      | v # w # vs \<Rightarrow> Resolved \<lparr>resp_data = None, resp_error = Some ''multiple rows''\<rparr>)"

definition backend_insert_vote ::
  "backend \<Rightarrow> ident \<Rightarrow> ident \<Rightarrow> ident \<Rightarrow> ident \<Rightarrow> backend \<times> unit outcome" where
  "backend_insert_vote db vid pollId optionId userId =
     (if votes_of db pollId userId \<noteq> [] then
        (db, Resolved \<lparr>resp_data = None, resp_error = Some ''duplicate vote''\<rparr>)
      else
        (db\<lparr>votes_table := votes_table db @
               [\<lparr>vote_id = vid, vote_poll_id = pollId, vote_option_id = optionId,
                 vote_user_id = userId\<rparr>]\<rparr>,
         Resolved \<lparr>resp_data = None, resp_error = None\<rparr>))"

text \<open>
  One \<open>handleVote\<close> call served by this backend with no other writer. The backend
  answers the requests that the call sends, and nothing else: \<open>serve\<close> is its answer to
  one request, on the tables as they are then, and \<open>answer\<close> its answer to the request
  that a segment of the call sent last. \<open>drive\<close> resumes the suspended call with each
  answer, for at most \<open>n\<close> awaits; a suspended call that sent no request gets no
  answer and stays suspended. \<open>handleVote\<close> has three awaits.
\<close>

fun serve :: "backend \<Rightarrow> ident \<Rightarrow> effect \<Rightarrow> (backend \<times> reply) option" where
  "serve db vid Select_polls = Some (db, Polls_reply (backend_select_polls db))"
| "serve db vid (Select_vote pollId userId) =
     Some (db, Check_reply (backend_select_vote db pollId userId))"
| "serve db vid (Insert_vote pollId optionId userId) =
     (case backend_insert_vote db vid pollId optionId userId of
        (db', out) \<Rightarrow> Some (db', Insert_reply out))"
| "serve db vid e = None"

definition answer :: "backend \<Rightarrow> ident \<Rightarrow> effect list \<Rightarrow> (backend \<times> reply) option" where
  "answer db vid es =
     (case requests es of [] \<Rightarrow> None | q # qs \<Rightarrow> serve db vid (last (q # qs)))"

fun drive ::
  "nat \<Rightarrow> backend \<Rightarrow> ident \<Rightarrow> effect list \<Rightarrow>
   poll_list_state \<times> effect list \<times> pending option \<Rightarrow>
   (poll_list_state \<times> effect list \<times> pending option) \<times> backend" where
  "drive 0 db vid sent (s, es, t) = ((s, sent @ es, t), db)"
| "drive (Suc n) db vid sent (s, es, None) = ((s, sent @ es, None), db)"
| "drive (Suc n) db vid sent (s, es, Some task) =
     (case answer db vid es of
        None \<Rightarrow> ((s, sent @ es, Some task), db)
      | Some (db', r) \<Rightarrow> drive n db' vid (sent @ es) (handleVote_resume s task r))"

definition vote_round_trip ::
  "backend \<Rightarrow> ident \<Rightarrow> auth_store \<Rightarrow> ident option \<Rightarrow> poll_list_state \<Rightarrow> ident \<Rightarrow> ident \<Rightarrow>
   (poll_list_state \<times> effect list \<times> pending option) \<times> backend" where
  "vote_round_trip db vid a captured s pollId optionId =
     drive 3 db vid [] (handleVote_begin a captured s pollId optionId)"

text \<open>
  The tallies of two poll collections compared: the same polls and options in the same
  order, and each option's count in the second is its count in the first, plus one where
  the option is \<open>optionId\<close>.
\<close>

definition one_more_vote :: "ident \<Rightarrow> poll list \<Rightarrow> poll list \<Rightarrow> bool" where
  "one_more_vote optionId before after =
     list_all2
       (\<lambda>p p'. poll_id p' = poll_id p \<and>
          list_all2
            (\<lambda>opt opt'. option_id opt' = option_id opt \<and>
               length (votes opt') =
                 length (votes opt) + (if option_id opt = optionId then 1 else 0))
            (options p) (options p'))
       before after"

section \<open>A scenario\<close>

text \<open>
  The poll of section 8 of the specification: "Favorite color" with the options "Red" and
  "Blue" and no votes, open until 2030; a second poll that ended in 2020; two users; and
  a clock in 2023 and one in 2030, after the end of the first poll. \<open>parse_demo\<close> reads
  the two end timestamps as \<open>new Date\<close> does.
\<close>

definition alice :: auth_user where
  "alice = \<lparr>user_id = ''u-alice'', user_email = ''alice@example.org''\<rparr>"

definition bob :: auth_user where
  "bob = \<lparr>user_id = ''u-bob'', user_email = ''bob@example.org''\<rparr>"

definition parse_demo :: "string \<Rightarrow> int option" where
  "parse_demo d =
     (if d = ''2030-01-01T00:00:00Z'' then Some 1893456000000
      else if d = ''2020-01-01T00:00:00Z'' then Some 1577836800000
      else None)"

definition now_demo :: int where
  "now_demo = 1700000000000"

definition after_end :: int where
  "after_end = 1900000000000"

definition demo_db :: backend where
  "demo_db =
     \<lparr>polls_table =
        [\<lparr>poll_id = ''p-color'', poll_title = ''Favorite color'', poll_description = ''Pick one'',
          poll_ends_at = ''2030-01-01T00:00:00Z'', poll_is_active = True,
          poll_created_at = ''2023-06-01T00:00:00Z''\<rparr>,
         \<lparr>poll_id = ''p-old'', poll_title = ''Lunch'', poll_description = ''Where to'',
          poll_ends_at = ''2020-01-01T00:00:00Z'', poll_is_active = True,
          poll_created_at = ''2019-06-01T00:00:00Z''\<rparr>],
      options_table =
        [\<lparr>option_id = ''o-red'', option_poll_id = ''p-color'', option_text = ''Red''\<rparr>,
         \<lparr>option_id = ''o-blue'', option_poll_id = ''p-color'', option_text = ''Blue''\<rparr>,
         \<lparr>option_id = ''o-soup'', option_poll_id = ''p-old'', option_text = ''Soup''\<rparr>],
      votes_table =
        [\<lparr>vote_id = ''v-1'', vote_poll_id = ''p-old'', vote_option_id = ''o-soup'',
          vote_user_id = ''u-bob''\<rparr>]\<rparr>"

definition blue :: option_with_votes where
  "blue = \<lparr>option_id = ''o-blue'', option_poll_id = ''p-color'', option_text = ''Blue'',
           votes = []\<rparr>"

definition favorite_color :: poll where
  "favorite_color =
     \<lparr>poll_id = ''p-color'', poll_title = ''Favorite color'', poll_description = ''Pick one'',
      poll_ends_at = ''2030-01-01T00:00:00Z'', poll_is_active = True,
      poll_created_at = ''2023-06-01T00:00:00Z'',
      options =
        [\<lparr>option_id = ''o-red'', option_poll_id = ''p-color'', option_text = ''Red'',
          votes = []\<rparr>, blue]\<rparr>"

definition idle :: poll_list_state where
  "idle = \<lparr>polls = poll_collection demo_db, loading = False, error = None,
           votingInProgress = None\<rparr>"

definition alice_store :: auth_store where
  "alice_store = \<lparr>user = Some alice, isAdmin = False\<rparr>"

definition voting_elsewhere :: poll_list_state where
  "voting_elsewhere = idle\<lparr>votingInProgress := Some ''p-old''\<rparr>"

definition empty_marker :: poll_list_state where
  "empty_marker = idle\<lparr>votingInProgress := Some []\<rparr>"

definition no_vote_yet :: "ident outcome" where
  "no_vote_yet = Resolved \<lparr>resp_data = None, resp_error = None\<rparr>"

definition insert_done :: "unit outcome" where
  "insert_done = Resolved \<lparr>resp_data = None, resp_error = None\<rparr>"




section \<open>Invariants of the component\<close>



definition error_shown_alone :: "poll_list_state \<Rightarrow> bool" where
  "error_shown_alone s =
     (case error s of
        None \<Rightarrow> True
      | Some msg \<Rightarrow> msg = ''Failed to load polls. Please try again.'' \<and> \<not> loading s)"

section \<open>Properties\<close>

subsection \<open>The segments make up the calls\<close>

lemma handleVote_segments:
  "handleVote a captured s pollId optionId checkOut insertOut fetchOut =
     (case handleVote_begin a captured s pollId optionId of
        (s1, e1, None) \<Rightarrow> (s1, e1)
      | (s1, e1, Some t1) \<Rightarrow>
          (case handleVote_resume s1 t1 (Check_reply checkOut) of
             (s2, e2, None) \<Rightarrow> (s2, e1 @ e2)
           | (s2, e2, Some t2) \<Rightarrow>
               (case handleVote_resume s2 t2 (Insert_reply insertOut) of
                  (s3, e3, None) \<Rightarrow> (s3, e1 @ e2 @ e3)
                | (s3, e3, Some t3) \<Rightarrow>
                    (case handleVote_resume s3 t3 (Polls_reply fetchOut) of
                       (s4, e4, t4) \<Rightarrow> (s4, e1 @ e2 @ e3 @ e4)))))"
  by (auto simp: handleVote_def handleVote_begin_def handleVote_catch_def ended_def
        fetchPolls_def Let_def split: option.splits outcome.splits prod.splits)

lemma truthy_iff: "truthy v = (\<exists>m. v = Some m \<and> m \<noteq> [])"
  by (simp add: truthy_def split: option.splits)

lemma reset_signed_out: "reset a = signed_out"
  by (simp add: reset_def signed_out_def)

text \<open>
  The continuation of the auth callback writes the admin flag on whatever the store holds
  when the profile arrives. A profile that arrives after a sign-out emptied the store
  leaves an admin flag without a user; \<open>App\<close> shows the sign-in form then, not the poll
  list.
\<close>

lemma late_profile_after_sign_out:
  "fst (profile_settles signed_out
          (Resolved \<lparr>resp_data = Some \<lparr>is_admin = Some True\<rparr>, resp_error = None\<rparr>)) =
     \<lparr>user = None, isAdmin = True\<rparr>"
  by (simp add: profile_settles_def setIsAdmin_def signed_out_def)

subsection \<open>The marker along a run\<close>











subsection \<open>The error cell along a run\<close>

lemma error_shown_alone_begin: "error_shown_alone (fst (fetchPolls_begin s))"
  by (simp add: error_shown_alone_def fetchPolls_begin_def)

lemma error_shown_alone_settle:
  "error_shown_alone s \<Longrightarrow> error_shown_alone (fst (fetchPolls_settle s out))"
  by (auto simp: error_shown_alone_def fetchPolls_settle_def fetchPolls_catch_def
        split: outcome.splits option.splits)

lemma error_shown_alone_marker:
  "error_shown_alone (s\<lparr>votingInProgress := m\<rparr>) = error_shown_alone s"
  by (simp add: error_shown_alone_def split: option.splits)

lemma error_shown_alone_handleVote_begin:
  "error_shown_alone s \<Longrightarrow>
   error_shown_alone (fst (handleVote_begin a captured s pollId optionId))"
  by (auto simp: handleVote_begin_def error_shown_alone_marker split: option.splits)

lemma error_shown_alone_resume:
  "error_shown_alone s \<Longrightarrow> error_shown_alone (fst (handleVote_resume s t r))"
  by (cases "(s, t, r)" rule: handleVote_resume.cases)
     (auto simp: ended_def handleVote_catch_def handleVote_finally_def error_shown_alone_marker
        error_shown_alone_begin error_shown_alone_settle case_prod_beta
        split: outcome.splits)

lemma error_shown_alone_step:
  "error_shown_alone (component c) \<Longrightarrow> error_shown_alone (component (step c e))"
  by (cases e)
     (auto simp: case_prod_beta error_shown_alone_handleVote_begin error_shown_alone_resume
        error_shown_alone_begin error_shown_alone_settle)

lemma error_shown_alone_run:
  "error_shown_alone (component c) \<Longrightarrow> error_shown_alone (component (run c evs))"
  unfolding run_def
  by (induction evs arbitrary: c) (simp_all add: error_shown_alone_step)

lemma error_shown_alone_initial: "error_shown_alone (component initial_client)"
  by (simp add: error_shown_alone_def initial_client_def initial_state_def)

subsection \<open>The backend's tallies after an insert\<close>

lemma one_more_vote_insert:
  assumes "db' = db\<lparr>votes_table := votes_table db @
             [\<lparr>vote_id = vid, vote_poll_id = pollId, vote_option_id = optionId,
               vote_user_id = userId\<rparr>]\<rparr>"
  shows "one_more_vote optionId (poll_collection db) (poll_collection db')"
  using assms
  by (simp add: one_more_vote_def poll_collection_def nest_poll_def nest_option_def
        list_all2_map1 list_all2_map2 list_all2_same)

subsection \<open>The scenario, evaluated\<close>

lemma demo_collection:
  "poll_collection demo_db =
     [favorite_color,
      \<lparr>poll_id = ''p-old'', poll_title = ''Lunch'', poll_description = ''Where to'',
       poll_ends_at = ''2020-01-01T00:00:00Z'', poll_is_active = True,
       poll_created_at = ''2019-06-01T00:00:00Z'',
       options =
         [\<lparr>option_id = ''o-soup'', option_poll_id = ''p-old'', option_text = ''Soup'',
           votes = [\<lparr>vote_id = ''v-1'', vote_poll_id = ''p-old'',
                     vote_option_id = ''o-soup'', vote_user_id = ''u-bob''\<rparr>]\<rparr>]\<rparr>]"
  by (simp add: poll_collection_def demo_db_def nest_poll_def nest_option_def
        favorite_color_def blue_def)

lemma demo_open: "isPollActive parse_demo now_demo favorite_color"
  by (simp add: isPollActive_def parse_demo_def now_demo_def favorite_color_def)

lemma demo_not_voted: "\<not> hasVoted alice_store favorite_color"
  by (simp add: hasVoted_def alice_store_def favorite_color_def blue_def)

lemma demo_enabled:
  "votingInProgress r \<noteq> Some ''p-color'' \<Longrightarrow>
   \<not> button_disabled (render_option parse_demo now_demo alice_store r favorite_color blue)"
  using demo_open demo_not_voted
  by (simp add: render_option_def vote_disabled_def)
     (simp add: alice_store_def favorite_color_def)

lemma demo_whole_call:
  "\<not> truthy captured \<Longrightarrow>
   handleVote alice_store captured s ''p-color'' ''o-blue''
     no_vote_yet insert_done (backend_select_polls demo_db) =
     (s\<lparr>votingInProgress := None, loading := False, error := None,
        polls := poll_collection demo_db\<rparr>,
      [Select_vote ''p-color'' ''u-alice'', Insert_vote ''p-color'' ''o-blue'' ''u-alice'',
       Toast_success ''Vote recorded successfully!'', Select_polls])"
  by (simp add: handleVote_def alice_store_def alice_def no_vote_yet_def insert_done_def
        backend_select_polls_def fetchPolls_def fetchPolls_begin_def fetchPolls_settle_def
        handleVote_finally_def Let_def)

subsection \<open>The claims\<close>

text \<open>
  C1. As amended: for every poll and option rendered, a click leads to a vote only when
  all four conditions held in the render that produced the button: a user was present,
  that user had no vote on this poll in the rendered collection, the poll was open at the
  time of the render, and the render showed no submission in flight for any poll (its
  marker was \<open>null\<close>, or the empty string, which the guard takes for unset). If one of
  them fails, the click performs no insert: it sends nothing and changes nothing. The
  button itself is disabled by the first three conditions and by a rendered submission
  for its own poll; with a rendered submission for another poll the button stays enabled
  and \<open>handleVote\<close> drops the click at its guard. What has changed since the render is
  not tested by the click.
\<close>

theorem clickOption_permitted_only_when:
  assumes "\<not> (user a \<noteq> None \<and> \<not> hasVoted a p \<and> isPollActive parseDate renderedAt p
            \<and> \<not> truthy (votingInProgress r))"
  shows "clickOption parseDate renderedAt a r s p opt checkOut insertOut fetchOut = (s, [])
       \<and> inserts (snd (clickOption parseDate renderedAt a r s p opt
                          checkOut insertOut fetchOut)) = []"
proof -
  have "clickOption parseDate renderedAt a r s p opt checkOut insertOut fetchOut = (s, [])"
    using assms
    by (auto simp: clickOption_def render_option_def vote_disabled_def handleVote_def
          split: option.splits)
  then show ?thesis by (simp add: inserts_def)
qed

theorem clickOption_permitted_only_when_witness:
  "\<not> (user alice_store \<noteq> None \<and> \<not> hasVoted alice_store favorite_color
          \<and> isPollActive parse_demo now_demo favorite_color
          \<and> \<not> truthy (votingInProgress voting_elsewhere))
   \<and> \<not> button_disabled
          (render_option parse_demo now_demo alice_store voting_elsewhere favorite_color blue)
   \<and> clickOption parse_demo now_demo alice_store voting_elsewhere voting_elsewhere
        favorite_color blue no_vote_yet insert_done (backend_select_polls demo_db) =
       (voting_elsewhere, [])"
proof -
  have h: "\<not> (user alice_store \<noteq> None \<and> \<not> hasVoted alice_store favorite_color
          \<and> isPollActive parse_demo now_demo favorite_color
          \<and> \<not> truthy (votingInProgress voting_elsewhere))"
    by (simp add: voting_elsewhere_def truthy_def)
  have enabled: "\<not> button_disabled
      (render_option parse_demo now_demo alice_store voting_elsewhere favorite_color blue)"
    by (rule demo_enabled) (simp add: voting_elsewhere_def)
  from clickOption_permitted_only_when [OF h] h enabled show ?thesis by blast
qed

text \<open>
  The claim as stated fails in three ways. The button of an open poll is rendered in
  2023 and clicked after the poll has ended (no state changed in between, so nothing was
  rendered again): the click inserts. A submission for another poll has begun since the
  render: the click inserts. The marker is set to the empty string: the click inserts.
\<close>

theorem clickOption_permitted_only_when_counterexample:
  "\<not> isPollActive parse_demo after_end favorite_color
   \<and> inserts (snd (clickOption parse_demo now_demo alice_store idle idle favorite_color blue
        no_vote_yet insert_done (backend_select_polls demo_db))) =
       [Insert_vote ''p-color'' ''o-blue'' ''u-alice'']
   \<and> votingInProgress voting_elsewhere = Some ''p-old''
   \<and> inserts (snd (clickOption parse_demo now_demo alice_store idle voting_elsewhere
        favorite_color blue no_vote_yet insert_done (backend_select_polls demo_db))) =
       [Insert_vote ''p-color'' ''o-blue'' ''u-alice'']
   \<and> votingInProgress empty_marker = Some []
   \<and> inserts (snd (clickOption parse_demo now_demo alice_store empty_marker empty_marker
        favorite_color blue no_vote_yet insert_done (backend_select_polls demo_db))) =
       [Insert_vote ''p-color'' ''o-blue'' ''u-alice'']"
proof -
  have ended: "\<not> isPollActive parse_demo after_end favorite_color"
    by (simp add: isPollActive_def parse_demo_def after_end_def favorite_color_def)
  have e1: "\<not> button_disabled
      (render_option parse_demo now_demo alice_store idle favorite_color blue)"
    by (rule demo_enabled) (simp add: idle_def)
  have e2: "\<not> button_disabled
      (render_option parse_demo now_demo alice_store empty_marker favorite_color blue)"
    by (rule demo_enabled) (simp add: empty_marker_def)
  have m1: "\<not> truthy (votingInProgress idle)" by (simp add: idle_def truthy_def)
  have m2: "\<not> truthy (votingInProgress empty_marker)"
    by (simp add: empty_marker_def truthy_def)
  have pid: "poll_id favorite_color = ''p-color''" "option_id blue = ''o-blue''"
    by (simp_all add: favorite_color_def blue_def)
  show ?thesis
    using ended e1 e2
    by (simp add: clickOption_def pid demo_whole_call [OF m1] demo_whole_call [OF m2]
          inserts_def)
       (simp add: voting_elsewhere_def empty_marker_def)
qed




text \<open>
  C3. When the existence check for (poll, user) returns an existing vote, \<open>handleVote\<close>
  sends no insert, whichever option was chosen; and a call that reaches the check (a
  user is present and the closure holds no marker) sends the check alone, reports "You
  have already voted on this poll" and ends with the marker cleared.
\<close>

theorem handleVote_already_voted:
  assumes "checkOut = Resolved \<lparr>resp_data = Some v, resp_error = None\<rparr>"
  shows "inserts (snd (handleVote a captured s pollId optionId
                         checkOut insertOut fetchOut)) = []
       \<and> (user a = Some u \<and> \<not> truthy captured \<longrightarrow>
            handleVote a captured s pollId optionId checkOut insertOut fetchOut =
              (s\<lparr>votingInProgress := None\<rparr>,
               [Select_vote pollId (user_id u),
                Toast_error ''You have already voted on this poll'']))"
  using assms
  by (simp add: handleVote_def handleVote_finally_def inserts_def Let_def split: option.splits)

theorem handleVote_already_voted_witness:
  "backend_select_vote demo_db ''p-old'' ''u-bob'' =
     Resolved \<lparr>resp_data = Some ''v-1'', resp_error = None\<rparr>
   \<and> handleVote \<lparr>user = Some bob, isAdmin = False\<rparr> (votingInProgress idle) idle
        ''p-old'' ''o-soup'' (backend_select_vote demo_db ''p-old'' ''u-bob'') insert_done
        (backend_select_polls demo_db) =
       (idle, [Select_vote ''p-old'' ''u-bob'',
               Toast_error ''You have already voted on this poll''])"
proof -
  have h: "backend_select_vote demo_db ''p-old'' ''u-bob'' =
     Resolved \<lparr>resp_data = Some ''v-1'', resp_error = None\<rparr>"
    by (simp add: backend_select_vote_def votes_of_def demo_db_def)
  have "handleVote \<lparr>user = Some bob, isAdmin = False\<rparr> (votingInProgress idle) idle
        ''p-old'' ''o-soup'' (backend_select_vote demo_db ''p-old'' ''u-bob'') insert_done
        (backend_select_polls demo_db) =
       (idle, [Select_vote ''p-old'' ''u-bob'',
               Toast_error ''You have already voted on this poll''])"
    using handleVote_already_voted [OF h, of "\<lparr>user = Some bob, isAdmin = False\<rparr>"
        "votingInProgress idle" idle "''p-old''" "''o-soup''" insert_done
        "backend_select_polls demo_db" bob]
    by (simp add: truthy_def idle_def bob_def)
  with h show ?thesis by simp
qed

text \<open>
  C4. After a successful vote insert for (poll, option, user), the re-fetch that
  \<open>handleVote\<close> triggers yields a poll collection in which that option's count is one
  greater than in the backend's collection before the insert and every other option's
  count is unchanged; where the component's collection was up to date, that is its own
  collection before the call. The backend is the one modelled above: it answers what the
  call sends, with no other writer in between. The user is present, the closure holds no
  marker and the user has no vote on the poll yet, so that the insert is sent and
  succeeds. The call then sends, in this order, the check, the insert and the composite
  read, ends, and has stored what the read returned.
\<close>

theorem vote_round_trip_counts:
  assumes "user a = Some u" and "\<not> truthy captured"
    and "votes_of db pollId (user_id u) = []"
  shows "case vote_round_trip db vid a captured s pollId optionId of
           ((s', es, t), db') \<Rightarrow>
             t = None
             \<and> es = [Select_vote pollId (user_id u),
                     Insert_vote pollId optionId (user_id u),
                     Toast_success ''Vote recorded successfully!'',
                     Select_polls]
             \<and> db' = db\<lparr>votes_table := votes_table db @
                         [\<lparr>vote_id = vid, vote_poll_id = pollId, vote_option_id = optionId,
                           vote_user_id = user_id u\<rparr>]\<rparr>
             \<and> polls s' = poll_collection db'
             \<and> one_more_vote optionId (poll_collection db) (polls s')
             \<and> (polls s = poll_collection db \<longrightarrow> one_more_vote optionId (polls s) (polls s'))
             \<and> (s', es) = handleVote a captured s pollId optionId
                            (backend_select_vote db pollId (user_id u))
                            (Resolved \<lparr>resp_data = None, resp_error = None\<rparr>)
                            (backend_select_polls db')"
  using assms
  by (simp add: vote_round_trip_def handleVote_begin_def numeral_3_eq_3 answer_def
        requests_def backend_insert_vote_def backend_select_vote_def backend_select_polls_def
        fetchPolls_begin_def fetchPolls_settle_def handleVote_finally_def
        handleVote_def fetchPolls_def Let_def one_more_vote_insert)

theorem vote_round_trip_counts_witness:
  "user alice_store = Some alice
   \<and> \<not> truthy (votingInProgress idle)
   \<and> votes_of demo_db ''p-color'' (user_id alice) = []
   \<and> map chart_data (polls idle) = [[(''Red'', 0), (''Blue'', 0)], [(''Soup'', 1)]]
   \<and> map chart_data
         (polls (fst (fst (vote_round_trip demo_db ''v-2'' alice_store (votingInProgress idle)
                             idle ''p-color'' ''o-blue'')))) =
       [[(''Red'', 0), (''Blue'', 1)], [(''Soup'', 1)]]
   \<and> one_more_vote ''o-blue'' (polls idle)
         (polls (fst (fst (vote_round_trip demo_db ''v-2'' alice_store (votingInProgress idle)
                             idle ''p-color'' ''o-blue''))))"
proof -
  have h1: "user alice_store = Some alice" by (simp add: alice_store_def)
  have h2: "\<not> truthy (votingInProgress idle)" by (simp add: idle_def truthy_def)
  have h3: "votes_of demo_db ''p-color'' (user_id alice) = []"
    by (simp add: votes_of_def demo_db_def alice_def)
  have sync: "polls idle = poll_collection demo_db" by (simp add: idle_def)
  have before: "map chart_data (polls idle) = [[(''Red'', 0), (''Blue'', 0)], [(''Soup'', 1)]]"
    by (simp add: idle_def demo_collection chart_data_def favorite_color_def blue_def)
  note inst = vote_round_trip_counts [OF h1 h2 h3, where vid = "''v-2''"
      and optionId = "''o-blue''" and s = idle]
  from inst sync have omv: "one_more_vote ''o-blue'' (polls idle)
         (polls (fst (fst (vote_round_trip demo_db ''v-2'' alice_store (votingInProgress idle)
                             idle ''p-color'' ''o-blue''))))"
    unfolding case_prod_beta by blast
  from inst have stored: "polls (fst (fst (vote_round_trip demo_db ''v-2'' alice_store
        (votingInProgress idle) idle ''p-color'' ''o-blue''))) =
      poll_collection (demo_db\<lparr>votes_table := votes_table demo_db @
         [\<lparr>vote_id = ''v-2'', vote_poll_id = ''p-color'', vote_option_id = ''o-blue'',
           vote_user_id = user_id alice\<rparr>]\<rparr>)"
    unfolding case_prod_beta by metis
  have after: "map chart_data
         (polls (fst (fst (vote_round_trip demo_db ''v-2'' alice_store (votingInProgress idle)
                             idle ''p-color'' ''o-blue'')))) =
       [[(''Red'', 0), (''Blue'', 1)], [(''Soup'', 1)]]"
    unfolding stored
    by (simp add: poll_collection_def demo_db_def nest_poll_def nest_option_def chart_data_def
          alice_def)
  from h1 h2 h3 before after omv show ?thesis by blast
qed

text \<open>
  C5. A poll is open exactly when its end timestamp is strictly in the future and its
  active flag is set; in particular a poll whose active flag is off is closed, whatever
  its end time.
\<close>

theorem isPollActive_iff:
  "isPollActive parseDate now p =
     ((\<exists>t. parseDate (poll_ends_at p) = Some t \<and> now < t) \<and> poll_is_active p)
   \<and> (\<not> poll_is_active p \<longrightarrow> \<not> isPollActive parseDate now p)"
  by (auto simp: isPollActive_def split: option.splits)

theorem isPollActive_iff_witness:
  "isPollActive parse_demo now_demo favorite_color
   \<and> \<not> poll_is_active (favorite_color\<lparr>poll_is_active := False\<rparr>)
   \<and> \<not> isPollActive parse_demo now_demo (favorite_color\<lparr>poll_is_active := False\<rparr>)"
proof -
  have "isPollActive parse_demo now_demo favorite_color"
    using isPollActive_iff [of parse_demo now_demo favorite_color]
    by (simp add: parse_demo_def now_demo_def favorite_color_def)
  moreover have "\<not> isPollActive parse_demo now_demo (favorite_color\<lparr>poll_is_active := False\<rparr>)"
    using isPollActive_iff [of parse_demo now_demo "favorite_color\<lparr>poll_is_active := False\<rparr>"]
    by simp
  ultimately show ?thesis by simp
qed

text \<open>
  C6. Whenever a poll-list fetch fails, the view is the error panel with its "Try Again"
  action, which calls \<open>fetchPolls\<close> again. The error and the poll data are never shown
  together: in no state with the error set does the view show polls, and in every state
  the component reaches, under any interleaving of its handlers, a set error means the
  error panel is what is rendered.
\<close>

theorem fetch_failure_shows_error_only:
  "(failed out \<longrightarrow>
      render parseDate now a (fst (fetchPolls s out)) =
        Error_message ''Failed to load polls. Please try again.'' ''Try Again'' Call_fetchPolls
      \<and> render parseDate now a (fst (fetchPolls_settle s out)) =
        Error_message ''Failed to load polls. Please try again.'' ''Try Again'' Call_fetchPolls)
   \<and> (truthy (error s) \<longrightarrow> \<not> shows_polls (render parseDate now a s))
   \<and> (error (component (run initial_client evs)) = Some msg \<longrightarrow>
        render parseDate now a (component (run initial_client evs)) =
          Error_message msg ''Try Again'' Call_fetchPolls)"
proof (intro conjI impI)
  assume f: "failed out"
  then show "render parseDate now a (fst (fetchPolls s out)) =
      Error_message ''Failed to load polls. Please try again.'' ''Try Again'' Call_fetchPolls"
    by (cases out)
       (simp_all add: render_def fetchPolls_def fetchPolls_begin_def fetchPolls_settle_def
          fetchPolls_catch_def truthy_def)
  from f show "render parseDate now a (fst (fetchPolls_settle s out)) =
      Error_message ''Failed to load polls. Please try again.'' ''Try Again'' Call_fetchPolls"
    by (cases out)
       (simp_all add: render_def fetchPolls_settle_def fetchPolls_catch_def truthy_def)
next
  assume "truthy (error s)"
  then show "\<not> shows_polls (render parseDate now a s)"
    by (simp add: render_def truthy_def split: option.splits)
next
  assume e: "error (component (run initial_client evs)) = Some msg"
  have "error_shown_alone (component (run initial_client evs))"
    using error_shown_alone_initial by (rule error_shown_alone_run)
  with e show "render parseDate now a (component (run initial_client evs)) =
      Error_message msg ''Try Again'' Call_fetchPolls"
    by (simp add: error_shown_alone_def render_def truthy_def)
qed

theorem fetch_failure_shows_error_only_witness:
  "failed (Rejected :: poll list outcome)
   \<and> polls (fst (fetchPolls idle Rejected)) = polls idle
   \<and> render parse_demo now_demo alice_store (fst (fetchPolls idle Rejected)) =
       Error_message ''Failed to load polls. Please try again.'' ''Try Again'' Call_fetchPolls
   \<and> error (component (run initial_client [Invoke_fetchPolls, Fetch_settles Rejected])) =
       Some ''Failed to load polls. Please try again.''
   \<and> render parse_demo now_demo alice_store
       (component (run initial_client [Invoke_fetchPolls, Fetch_settles Rejected])) =
       Error_message ''Failed to load polls. Please try again.'' ''Try Again'' Call_fetchPolls"
proof -
  have f: "failed (Rejected :: poll list outcome)" by simp
  have kept: "polls (fst (fetchPolls idle Rejected)) = polls idle"
    by (simp add: fetchPolls_def fetchPolls_begin_def fetchPolls_settle_def fetchPolls_catch_def)
  have e: "error (component (run initial_client [Invoke_fetchPolls, Fetch_settles Rejected])) =
       Some ''Failed to load polls. Please try again.''"
    by (simp add: run_def initial_client_def fetchPolls_begin_def fetchPolls_settle_def
          fetchPolls_catch_def)
  note inst = fetch_failure_shows_error_only [of "Rejected :: poll list outcome" parse_demo
      now_demo alice_store idle "[Invoke_fetchPolls, Fetch_settles Rejected]"
      "''Failed to load polls. Please try again.''"]
  from inst f e kept show ?thesis by blast
qed




text \<open>
  C8. For an anonymous viewer (the store holds no user) every voting button of every poll
  is disabled, a click on any option does nothing, and \<open>handleVote\<close> itself only
  reports "Please sign in to vote": no request, no insert, no change of state. The
  results chart and the vote counts of every poll are hidden: \<open>PollList\<close> shows them to
  an admin or to a user who has voted, and a store without a user carries no admin flag
  (the signed-out state); and \<open>App\<close> does not put the poll list on the screen at all
  while the store holds no user.
\<close>

theorem anonymous_viewer:
  assumes "user a = None"
  shows "list_all button_disabled (card_buttons (render_poll parseDate now a s p))
       \<and> clickOption parseDate now a s s' p opt checkOut insertOut fetchOut = (s', [])
       \<and> handleVote a captured s' pollId optionId checkOut insertOut fetchOut =
           (s', [Toast_error ''Please sign in to vote''])
       \<and> (\<not> isAdmin a \<longrightarrow>
            card_chart (render_poll parseDate now a s p) = None
            \<and> list_all (\<lambda>b. button_tally b = None)
                (card_buttons (render_poll parseDate now a s p)))
       \<and> App_render appLoading a (render parseDate now a s) =
           (if appLoading then App_initializing else App_sign_in)"
  using assms
  by (simp add: render_poll_def render_option_def vote_disabled_def hasVoted_def
        clickOption_def handleVote_def list_all_iff App_render_def)

theorem anonymous_viewer_witness:
  "user signed_out = None
   \<and> \<not> isAdmin signed_out
   \<and> card_chart (render_poll parse_demo now_demo signed_out idle favorite_color) = None
   \<and> map button_disabled
       (card_buttons (render_poll parse_demo now_demo signed_out idle favorite_color)) =
       [True, True]
   \<and> map button_tally
       (card_buttons (render_poll parse_demo now_demo signed_out idle favorite_color)) =
       [None, None]
   \<and> clickOption parse_demo now_demo signed_out idle idle favorite_color blue
       no_vote_yet insert_done (backend_select_polls demo_db) = (idle, [])
   \<and> handleVote signed_out (votingInProgress idle) idle ''p-color'' ''o-blue''
       no_vote_yet insert_done (backend_select_polls demo_db) =
       (idle, [Toast_error ''Please sign in to vote''])
   \<and> App_render False signed_out (render parse_demo now_demo signed_out idle) = App_sign_in"
proof -
  have h1: "user signed_out = None" by (simp add: signed_out_def)
  have h2: "\<not> isAdmin signed_out" by (simp add: signed_out_def)
  have buttons: "map button_disabled
       (card_buttons (render_poll parse_demo now_demo signed_out idle favorite_color)) =
       [True, True]
     \<and> map button_tally
       (card_buttons (render_poll parse_demo now_demo signed_out idle favorite_color)) =
       [None, None]"
    by (simp add: render_poll_def render_option_def vote_disabled_def hasVoted_def
          signed_out_def favorite_color_def)
  from anonymous_viewer [OF h1, of parse_demo now_demo idle favorite_color idle blue
      no_vote_yet insert_done "backend_select_polls demo_db" "votingInProgress idle"
      "''p-color''" "''o-blue''" False]
    h1 h2 buttons
  show ?thesis by simp
qed

text \<open>
  C9. The poll collection is always a list: it starts as the empty list, and a fetch
  that resolves without an error and without data stores the empty list.
\<close>

theorem polls_never_null:
  "polls initial_state = []
   \<and> polls (fst (fetchPolls s (Resolved \<lparr>resp_data = None, resp_error = None\<rparr>))) = []
   \<and> polls (fst (fetchPolls_settle s (Resolved \<lparr>resp_data = None, resp_error = None\<rparr>))) = []"
  by (simp add: initial_state_def fetchPolls_def fetchPolls_begin_def fetchPolls_settle_def)

theorem polls_never_null_witness:
  "polls idle \<noteq> []
   \<and> polls (fst (fetchPolls idle (Resolved \<lparr>resp_data = None, resp_error = None\<rparr>))) = []"
proof -
  have "polls idle \<noteq> []" by (simp add: idle_def demo_collection)
  with polls_never_null [of idle] show ?thesis by simp
qed

text \<open>
  C10. An auth-state notification that carries no user leaves the store signed out (no
  user, admin flag off), whatever its event; and a profile load that fails during a
  notification leaves the store signed out as well, not a user with a stale admin flag.
  This holds for the whole callback and for its continuation after the await, on
  whatever the store holds by then.
\<close>

theorem auth_change_without_user:
  "(session_user_of session = None \<longrightarrow>
      fst (onAuthStateChange ev session profileOut a) = signed_out)
   \<and> (failed profileOut \<longrightarrow>
      fst (onAuthStateChange ev session profileOut a) = signed_out
      \<and> fst (profile_settles a profileOut) = signed_out)"
  by (cases profileOut)
     (auto simp: onAuthStateChange_def profile_settles_def profile_catch_def reset_signed_out
        split: option.splits prod.splits)

theorem auth_change_without_user_witness:
  "session_user_of None = None
   \<and> fst (onAuthStateChange ''TOKEN_REFRESHED'' None Rejected
            \<lparr>user = Some alice, isAdmin = True\<rparr>) = \<lparr>user = None, isAdmin = False\<rparr>
   \<and> failed (Resolved \<lparr>resp_data = None :: profile option, resp_error = Some ''timeout''\<rparr>)
   \<and> fst (onAuthStateChange ''SIGNED_IN'' (Some \<lparr>session_user = Some alice\<rparr>)
            (Resolved \<lparr>resp_data = None, resp_error = Some ''timeout''\<rparr>)
            \<lparr>user = Some bob, isAdmin = True\<rparr>) = \<lparr>user = None, isAdmin = False\<rparr>"
proof -
  have h1: "session_user_of None = None" by (simp add: session_user_of_def)
  have h2: "failed (Resolved \<lparr>resp_data = None :: profile option, resp_error = Some ''timeout''\<rparr>)"
    by simp
  note t1 = auth_change_without_user [of None "''TOKEN_REFRESHED''" Rejected
      "\<lparr>user = Some alice, isAdmin = True\<rparr>"]
  note t2 = auth_change_without_user [of "Some \<lparr>session_user = Some alice\<rparr>" "''SIGNED_IN''"
      "Resolved \<lparr>resp_data = None, resp_error = Some ''timeout''\<rparr>"
      "\<lparr>user = Some bob, isAdmin = True\<rparr>"]
  from t1 t2 h1 h2 show ?thesis by (simp add: signed_out_def)
qed

end
